theory Spec2Isabelle
  imports Main
begin

section \<open>Values exchanged with the backend\<close>

text \<open>
  Response and request bodies are untyped in the source (\<^verbatim>\<open>any\<close>,
  \<^verbatim>\<open>Record<string, unknown>\<close>): they are whatever JSON the backend sent. An object
  is an association list of its properties; a property that is not in the list reads
  as \<^verbatim>\<open>undefined\<close>, which is \<open>None\<close> here.
\<close>

datatype json =
    JNull
  | JBool bool
  | JNum int
  | JStr string
  | JArr "json list"
  | JObj "(string \<times> json) list"

text \<open>Reading a property \<^verbatim>\<open>v.k\<close> of a value that is not \<^verbatim>\<open>null\<close>.\<close>

fun get_prop :: "json \<Rightarrow> string \<Rightarrow> json option" where
  "get_prop (JObj kvs) k = map_of kvs k"
| "get_prop _ k = None"

text \<open>JavaScript truthiness, as used by \<^verbatim>\<open>*ngIf\<close>.\<close>

fun truthy :: "json \<Rightarrow> bool" where
  "truthy JNull = False"
| "truthy (JBool b) = b"
| "truthy (JNum n) = (n \<noteq> 0)"
| "truthy (JStr s) = (s \<noteq> [])"
| "truthy (JArr xs) = True"
| "truthy (JObj kvs) = True"

section \<open>Transport adapter: \<^verbatim>\<open>ApiService\<close>\<close>

datatype http_method = GET | POST | PUT | DELETE

text \<open>
  What \<^verbatim>\<open>HttpClient\<close> is asked to send. \<^verbatim>\<open>HttpClient\<close> returns a cold
  observable: the value returned by \<^verbatim>\<open>get\<close>/\<^verbatim>\<open>post\<close>/\<^verbatim>\<open>put\<close>/\<^verbatim>\<open>delete\<close>
  is this description, and the request goes out when it is subscribed to.
\<close>

record http_request =
  req_method :: http_method
  url :: string
  body :: "json option"
  params :: "json option"
  headers :: "(string \<times> string) list option"

type_synonym observable = http_request

text \<open>\<^verbatim>\<open>s.replace(/\/$/, '')\<close>: one slash at the very end of the string is removed.\<close>

definition replace_trailing_slash :: "string \<Rightarrow> string" where
  "replace_trailing_slash s =
     (if s \<noteq> [] \<and> last s = CHR ''/'' then butlast s else s)"

text \<open>\<^verbatim>\<open>s.startsWith('/')\<close>.\<close>

definition startsWith_slash :: "string \<Rightarrow> bool" where
  "startsWith_slash s = (case s of [] \<Rightarrow> False | c # _ \<Rightarrow> c = CHR ''/'')"

record api_service =
  base :: string

text \<open>
  The field initialiser \<^verbatim>\<open>base = environment.apiBaseUrl.replace(/\/$/, '')\<close>. The
  environment file is configuration, so \<open>apiBaseUrl\<close> is a parameter.
\<close>

definition new_ApiService :: "string \<Rightarrow> api_service" where
  "new_ApiService apiBaseUrl = \<lparr> base = replace_trailing_slash apiBaseUrl \<rparr>"

definition ApiService_get :: "api_service \<Rightarrow> string \<Rightarrow> json option \<Rightarrow> observable" where
  "ApiService_get this path ps =
     (let u = base this @ (if startsWith_slash path then path else ''/'' @ path)
      in \<lparr> req_method = GET, url = u, body = None, params = ps, headers = None \<rparr>)"

definition ApiService_post ::
  "api_service \<Rightarrow> string \<Rightarrow> json \<Rightarrow> (string \<times> string) list option \<Rightarrow> observable" where
  "ApiService_post this path b hs =
     (let u = base this @ (if startsWith_slash path then path else ''/'' @ path)
      in \<lparr> req_method = POST, url = u, body = Some b, params = None, headers = hs \<rparr>)"

definition ApiService_put :: "api_service \<Rightarrow> string \<Rightarrow> json \<Rightarrow> observable" where
  "ApiService_put this path b =
     (let u = base this @ (if startsWith_slash path then path else ''/'' @ path)
      in \<lparr> req_method = PUT, url = u, body = Some b, params = None, headers = None \<rparr>)"

definition ApiService_delete :: "api_service \<Rightarrow> string \<Rightarrow> observable" where
  "ApiService_delete this path =
     (let u = base this @ (if startsWith_slash path then path else ''/'' @ path)
      in \<lparr> req_method = DELETE, url = u, body = None, params = None, headers = None \<rparr>)"

subsection \<open>What the specification asks of the URL\<close>

text \<open>
  Following the specification's words, not the code: the base without its trailing
  slashes, one slash, the path without its leading slashes.
\<close>

definition is_slash :: "char \<Rightarrow> bool" where
  "is_slash c = (c = CHR ''/'')"

definition strip_trailing_slashes :: "string \<Rightarrow> string" where
  "strip_trailing_slashes s = rev (dropWhile is_slash (rev s))"

definition strip_leading_slashes :: "string \<Rightarrow> string" where
  "strip_leading_slashes s = dropWhile is_slash s"

definition spec_one_slash_join :: "string \<Rightarrow> string \<Rightarrow> string" where
  "spec_one_slash_join b p = strip_trailing_slashes b @ ''/'' @ strip_leading_slashes p"

text \<open>A string that ends, respectively starts, with two slashes.\<close>

definition ends_with_two_slashes :: "string \<Rightarrow> bool" where
  "ends_with_two_slashes s = (2 \<le> length s \<and> drop (length s - 2) s = ''//'')"

definition starts_with_two_slashes :: "string \<Rightarrow> bool" where
  "starts_with_two_slashes s = (take 2 s = ''//'')"

section \<open>Request augmentation: \<^verbatim>\<open>AuthInterceptor\<close>\<close>

text \<open>
  \<^verbatim>\<open>intercept(req, next) { return next.handle(req); }\<close>; the handler is whatever
  comes after the interceptor in the chain.
\<close>

definition AuthInterceptor_intercept :: "http_request \<Rightarrow> (http_request \<Rightarrow> 'a) \<Rightarrow> 'a" where
  "AuthInterceptor_intercept req next = next req"

section \<open>Subscriptions and the arrival of responses\<close>

text \<open>
  How a call ends: a 2xx response with its parsed body, or a failure (a non-2xx
  response, or no response at all) with its status and parsed error body.
\<close>

datatype http_outcome = Success json | Failure nat json

text \<open>
  A component together with what it has on the wire. Every subscription of the source
  passes one callback (the \<^verbatim>\<open>next\<close> handler) and no error handler. An exchange is
  a request that went out and the callback waiting for its response, \<open>None\<close> once
  the call has ended. An exchange is identified by its position, which is the order
  of issue. A failure that reaches a subscription without an error handler is
  reported as unhandled, outside the component.
\<close>

record 'c runtime =
  component :: 'c
  exchanges :: "(http_request \<times> (json \<Rightarrow> 'c \<Rightarrow> 'c) option) list"
  unhandled :: "(nat \<times> json) list"

definition new_runtime :: "'c \<Rightarrow> 'c runtime" where
  "new_runtime c = \<lparr> component = c, exchanges = [], unhandled = [] \<rparr>"

definition sent :: "'c runtime \<Rightarrow> http_request list" where
  "sent rt = map fst (exchanges rt)"

text \<open>The end of the interceptor chain: the request goes out.\<close>

definition backend_handle ::
  "(json \<Rightarrow> 'c \<Rightarrow> 'c) \<Rightarrow> http_request \<Rightarrow> 'c runtime \<Rightarrow> 'c runtime" where
  "backend_handle next req rt = rt\<lparr> exchanges := exchanges rt @ [(req, Some next)] \<rparr>"

text \<open>
  \<^verbatim>\<open>obs.subscribe(next)\<close> on an observable of \<^verbatim>\<open>HttpClient\<close>: the request runs
  through the one registered interceptor (\<^verbatim>\<open>main.ts\<close> provides
  \<^verbatim>\<open>AuthInterceptor\<close> as \<^verbatim>\<open>HTTP_INTERCEPTORS\<close>) and is sent.
\<close>

definition subscribe :: "observable \<Rightarrow> (json \<Rightarrow> 'c \<Rightarrow> 'c) \<Rightarrow> 'c runtime \<Rightarrow> 'c runtime" where
  "subscribe obs next rt = AuthInterceptor_intercept obs (backend_handle next) rt"

text \<open>
  The call issued as number \<open>k\<close> ends. A success runs the waiting callback on the
  response body; a failure runs nothing of the component. A call ends once.
\<close>

definition deliver :: "nat \<Rightarrow> http_outcome \<Rightarrow> 'c runtime \<Rightarrow> 'c runtime" where
  "deliver k out rt =
     (if k < length (exchanges rt) then
        (case snd (exchanges rt ! k) of
           None \<Rightarrow> rt
         | Some next \<Rightarrow>
             (let rt' = rt\<lparr> exchanges := (exchanges rt)[k := (fst (exchanges rt ! k), None)] \<rparr>
              in case out of
                   Success res \<Rightarrow> rt'\<lparr> component := next res (component rt') \<rparr>
                 | Failure status err \<Rightarrow> rt'\<lparr> unhandled := unhandled rt' @ [(status, err)] \<rparr>))
      else rt)"

section \<open>Domain request service: \<^verbatim>\<open>TestGeneratorService\<close>\<close>

record test_generator_service =
  api :: api_service

text \<open>
  \<^verbatim>\<open>generate(screenId, options = {})\<close>: an omitted argument is \<open>None\<close>, and the
  default parameter replaces it by the empty object.
\<close>

definition TestGeneratorService_generate ::
  "test_generator_service \<Rightarrow> string \<Rightarrow> (string \<times> json) list option \<Rightarrow> observable" where
  "TestGeneratorService_generate this screenId options =
     (let options' = (case options of None \<Rightarrow> [] | Some r \<Rightarrow> r);
          b = JObj [(''screenId'', JStr screenId), (''options'', JObj options')]
      in ApiService_post (api this) ''/tests/generate'' b None)"

section \<open>View coordinators\<close>

subsection \<open>\<^verbatim>\<open>GenerateTestComponent\<close>\<close>

text \<open>
  The form has one control, \<open>screenId\<close>, with \<^verbatim>\<open>Validators.required\<close>; the field
  \<^verbatim>\<open>result\<close> is declared without a value, so it starts as \<^verbatim>\<open>undefined\<close>.
\<close>

record generate_test_component =
  form_screenId :: string
  result :: "json option"
  gen :: test_generator_service

definition new_GenerateTestComponent :: "test_generator_service \<Rightarrow> generate_test_component" where
  "new_GenerateTestComponent g = \<lparr> form_screenId = [], result = None, gen = g \<rparr>"

text \<open>\<^verbatim>\<open>form.valid\<close>: the required control holds a non-empty string.\<close>

definition form_valid :: "generate_test_component \<Rightarrow> bool" where
  "form_valid this = (form_screenId this \<noteq> [])"

definition GenerateTestComponent_submit ::
  "generate_test_component runtime \<Rightarrow> generate_test_component runtime" where
  "GenerateTestComponent_submit rt =
     (let this = component rt
      in if form_valid this
         then subscribe (TestGeneratorService_generate (gen this) (form_screenId this) None)
                (\<lambda>res c. c\<lparr> result := Some res \<rparr>) rt
         else rt)"

text \<open>
  What the template shows: under \<^verbatim>\<open>*ngIf="result"\<close>, the held value itself
  (\<^verbatim>\<open>result | json\<close>); nothing when it is not truthy.
\<close>

definition GenerateTestComponent_view :: "generate_test_component \<Rightarrow> json option" where
  "GenerateTestComponent_view this =
     (case result this of
        None \<Rightarrow> None
      | Some r \<Rightarrow> if truthy r then Some r else None)"

subsection \<open>\<^verbatim>\<open>TestListComponent\<close>\<close>

text \<open>
  \<^verbatim>\<open>tests: any[] = []\<close>; the subscription assigns whatever the backend sent
  (\<^verbatim>\<open>x: any\<close>), so the field holds a JSON value.
\<close>

record test_list_component =
  tests :: json
  list_api :: api_service

definition new_TestListComponent :: "api_service \<Rightarrow> test_list_component" where
  "new_TestListComponent a = \<lparr> tests = JArr [], list_api = a \<rparr>"

definition TestListComponent_ngOnInit ::
  "test_list_component runtime \<Rightarrow> test_list_component runtime" where
  "TestListComponent_ngOnInit rt =
     subscribe (ApiService_get (list_api (component rt)) ''/tests'' None)
       (\<lambda>x c. c\<lparr> tests := x \<rparr>) rt"

text \<open>
  What the template shows: \<^verbatim>\<open>*ngFor="let t of tests"\<close> makes one entry per element,
  with the two interpolated values \<^verbatim>\<open>t.testId\<close> and \<^verbatim>\<open>t.status\<close>. Reading a
  property of \<^verbatim>\<open>null\<close> throws. The field starts as an array, so the directive
  has its differ from the first check on; from then on \<^verbatim>\<open>null\<close> is treated as the
  empty list, and every other value that is not an array makes the differ throw, the
  values \<^verbatim>\<open>0\<close>, \<^verbatim>\<open>''\<close> and \<^verbatim>\<open>false\<close> among them.
\<close>

datatype render_error = NotIterable | NullEntry

fun render_entries :: "json list \<Rightarrow> render_error + (json option \<times> json option) list" where
  "render_entries [] = Inr []"
| "render_entries (JNull # ts) = Inl NullEntry"
| "render_entries (t # ts) =
     (case render_entries ts of
        Inl e \<Rightarrow> Inl e
      | Inr es \<Rightarrow> Inr ((get_prop t ''testId'', get_prop t ''status'') # es))"

definition TestListComponent_view ::
  "test_list_component \<Rightarrow> render_error + (json option \<times> json option) list" where
  "TestListComponent_view this =
     (case tests this of
        JArr ts \<Rightarrow> render_entries ts
      | JNull \<Rightarrow> Inr []
      | _ \<Rightarrow> Inl NotIterable)"

section \<open>Observations and example values\<close>

text \<open>The property \<open>k\<close> of the value that \<^verbatim>\<open>GenerateTestComponent\<close> shows, if any.\<close>

definition shown_prop :: "generate_test_component \<Rightarrow> string \<Rightarrow> json option" where
  "shown_prop this k =
     (case GenerateTestComponent_view this of None \<Rightarrow> None | Some v \<Rightarrow> get_prop v k)"

text \<open>
  Following the specification's words: a value of shape
  \<^verbatim>\<open>{ depth: enum{low,medium,high}, includeEdgeCases: bool }\<close>.
\<close>

definition spec_is_GenerationOptions :: "json \<Rightarrow> bool" where
  "spec_is_GenerationOptions v =
     (get_prop v ''depth'' \<in> {Some (JStr ''low''), Some (JStr ''medium''), Some (JStr ''high'')}
      \<and> get_prop v ''includeEdgeCases'' \<in> {Some (JBool True), Some (JBool False)})"

text \<open>
  Example values, from the project README: the development base URL, the example
  request and response, and an error body.
\<close>

abbreviation dev_service :: test_generator_service where
  "dev_service \<equiv> \<lparr> api = new_ApiService ''http://localhost:8000/api'' \<rparr>"

abbreviation screen_123_form :: "generate_test_component runtime" where
  "screen_123_form \<equiv>
     new_runtime ((new_GenerateTestComponent dev_service)\<lparr> form_screenId := ''screen_123'' \<rparr>)"

abbreviation queued_snapshot :: json where
  "queued_snapshot \<equiv>
     JObj [(''testId'', JStr ''tst_789''), (''status'', JStr ''queued''), (''tests'', JArr [])]"

abbreviation rate_limit_error :: json where
  "rate_limit_error \<equiv>
     JObj [(''code'', JStr ''RATE_LIMIT''), (''message'', JStr ''too many requests'')]"

abbreviation screen_123_loaded :: "generate_test_component runtime" where
  "screen_123_loaded \<equiv>
     new_runtime ((new_GenerateTestComponent dev_service)
       \<lparr> form_screenId := ''screen_123'', result := Some queued_snapshot \<rparr>)"

section \<open>Properties of the transport adapter\<close>

lemma replace_trailing_slash_strip:
  assumes "\<not> ends_with_two_slashes s"
  shows "replace_trailing_slash s = strip_trailing_slashes s"
proof (cases s rule: rev_cases)
  case Nil
  then show ?thesis by (simp add: replace_trailing_slash_def strip_trailing_slashes_def)
next
  case (snoc xs c)
  show ?thesis
  proof (cases "c = CHR ''/''")
    case False
    with snoc show ?thesis
      by (simp add: replace_trailing_slash_def strip_trailing_slashes_def is_slash_def)
  next
    case True
    show ?thesis
    proof (cases xs rule: rev_cases)
      case Nil
      with snoc True show ?thesis
        by (simp add: replace_trailing_slash_def strip_trailing_slashes_def is_slash_def)
    next
      case inner: (snoc ys d)
      from assms snoc True inner have "d \<noteq> CHR ''/''"
        by (auto simp: ends_with_two_slashes_def)
      with snoc True inner show ?thesis
        by (simp add: replace_trailing_slash_def strip_trailing_slashes_def is_slash_def
            butlast_append)
    qed
  qed
qed

lemma normalized_path_strip:
  assumes "\<not> starts_with_two_slashes p"
  shows "(if startsWith_slash p then p else ''/'' @ p) = ''/'' @ strip_leading_slashes p"
proof (cases p)
  case Nil
  then show ?thesis by (simp add: startsWith_slash_def strip_leading_slashes_def)
next
  case (Cons c cs)
  show ?thesis
  proof (cases "c = CHR ''/''")
    case False
    with Cons show ?thesis
      by (simp add: startsWith_slash_def strip_leading_slashes_def is_slash_def)
  next
    case True
    with assms Cons have "cs = [] \<or> hd cs \<noteq> CHR ''/''"
      by (cases cs) (auto simp: starts_with_two_slashes_def)
    then have "dropWhile is_slash cs = cs"
      by (cases cs) (auto simp: is_slash_def)
    with Cons True show ?thesis
      by (simp add: startsWith_slash_def strip_leading_slashes_def is_slash_def)
  qed
qed

lemma length_dropWhile_eq:
  "(length (dropWhile P xs) = length xs) = (xs = [] \<or> \<not> P (hd xs))"
proof (cases xs)
  case Nil
  then show ?thesis by simp
next
  case (Cons x xs')
  have "length (dropWhile P xs') \<le> length xs'" by (rule length_dropWhile_le)
  with Cons show ?thesis by auto
qed

lemma ends_with_two_slashes_rev:
  "ends_with_two_slashes s = starts_with_two_slashes (rev s)"
proof (cases s rule: rev_cases)
  case Nil
  then show ?thesis by (simp add: ends_with_two_slashes_def starts_with_two_slashes_def)
next
  case (snoc xs c)
  then show ?thesis
    by (cases xs rule: rev_cases)
       (auto simp: ends_with_two_slashes_def starts_with_two_slashes_def)
qed

lemma normalized_path_length:
  "length (''/'' @ strip_leading_slashes p)
     \<le> length (if startsWith_slash p then p else ''/'' @ p)
   \<and> ((length (''/'' @ strip_leading_slashes p)
        = length (if startsWith_slash p then p else ''/'' @ p))
       = (\<not> starts_with_two_slashes p))"
proof (cases p)
  case Nil
  then show ?thesis
    by (simp add: startsWith_slash_def strip_leading_slashes_def starts_with_two_slashes_def)
next
  case (Cons c cs)
  show ?thesis
  proof (cases "c = CHR ''/''")
    case False
    with Cons show ?thesis
      by (simp add: startsWith_slash_def strip_leading_slashes_def starts_with_two_slashes_def
          is_slash_def)
  next
    case True
    have le: "length (dropWhile is_slash cs) \<le> length cs" by (rule length_dropWhile_le)
    have "starts_with_two_slashes p = (cs \<noteq> [] \<and> is_slash (hd cs))"
      using Cons True by (cases cs) (auto simp: starts_with_two_slashes_def is_slash_def)
    with Cons True le length_dropWhile_eq [of is_slash cs] show ?thesis
      by (auto simp: startsWith_slash_def strip_leading_slashes_def is_slash_def)
  qed
qed

lemma replace_trailing_slash_length:
  "length (strip_trailing_slashes s) \<le> length (replace_trailing_slash s)
   \<and> ((length (strip_trailing_slashes s) = length (replace_trailing_slash s))
       = (\<not> ends_with_two_slashes s))"
proof (cases s rule: rev_cases)
  case Nil
  then show ?thesis
    by (simp add: strip_trailing_slashes_def replace_trailing_slash_def ends_with_two_slashes_def)
next
  case (snoc xs c)
  show ?thesis
  proof (cases "c = CHR ''/''")
    case False
    with snoc show ?thesis
      by (simp add: strip_trailing_slashes_def replace_trailing_slash_def
          ends_with_two_slashes_def is_slash_def)
  next
    case True
    have le: "length (dropWhile is_slash (rev xs)) \<le> length (rev xs)"
      by (rule length_dropWhile_le)
    have "ends_with_two_slashes s = (rev xs \<noteq> [] \<and> is_slash (hd (rev xs)))"
      using snoc True
      by (cases "rev xs")
         (auto simp: ends_with_two_slashes_rev starts_with_two_slashes_def is_slash_def)
    with snoc True le length_dropWhile_eq [of is_slash "rev xs"] show ?thesis
      by (auto simp: strip_trailing_slashes_def replace_trailing_slash_def is_slash_def)
  qed
qed

text \<open>
  The two conditions of the next theorem are needed: whenever the URL that the four
  methods build is the one-slash join, the base does not end with two slashes and the
  path does not start with two.
\<close>

lemma url_one_slash_join_only_if:
  assumes "base (new_ApiService apiBaseUrl) @ (if startsWith_slash path then path else ''/'' @ path)
             = spec_one_slash_join apiBaseUrl path"
  shows "\<not> ends_with_two_slashes apiBaseUrl \<and> \<not> starts_with_two_slashes path"
proof -
  let ?n = "if startsWith_slash path then path else ''/'' @ path"
  from assms have "replace_trailing_slash apiBaseUrl @ ?n
      = strip_trailing_slashes apiBaseUrl @ (''/'' @ strip_leading_slashes path)"
    by (simp add: new_ApiService_def spec_one_slash_join_def)
  then have "length (replace_trailing_slash apiBaseUrl @ ?n)
      = length (strip_trailing_slashes apiBaseUrl @ (''/'' @ strip_leading_slashes path))"
    by (rule arg_cong)
  then have eq: "length (replace_trailing_slash apiBaseUrl) + length ?n
      = length (strip_trailing_slashes apiBaseUrl) + length (''/'' @ strip_leading_slashes path)"
    by (simp only: length_append)
  have a: "length (strip_trailing_slashes apiBaseUrl) \<le> length (replace_trailing_slash apiBaseUrl)"
    and a': "(length (strip_trailing_slashes apiBaseUrl) = length (replace_trailing_slash apiBaseUrl))
       = (\<not> ends_with_two_slashes apiBaseUrl)"
    using replace_trailing_slash_length [of apiBaseUrl] by blast+
  have b: "length (''/'' @ strip_leading_slashes path) \<le> length ?n"
    and b': "(length (''/'' @ strip_leading_slashes path) = length ?n)
       = (\<not> starts_with_two_slashes path)"
    using normalized_path_length [of path] by blast+
  from eq a b have "length (strip_trailing_slashes apiBaseUrl) = length (replace_trailing_slash apiBaseUrl)"
    and "length (''/'' @ strip_leading_slashes path) = length ?n"
    by linarith+
  with a' b' show ?thesis by blast
qed

text \<open>
  C1, as the code has it. When the configured base URL does not end with two slashes and
  the path does not start with two slashes, each of \<^verbatim>\<open>get\<close>, \<^verbatim>\<open>post\<close>,
  \<^verbatim>\<open>put\<close> and \<^verbatim>\<open>delete\<close> builds the URL that the specification describes: the
  base without its trailing slash, exactly one slash, and the path without its leading
  slash. Trailing slashes of the path are kept.
\<close>

theorem ApiService_url_one_slash:
  assumes "\<not> ends_with_two_slashes apiBaseUrl" and "\<not> starts_with_two_slashes path"
  shows "url (ApiService_get (new_ApiService apiBaseUrl) path ps) = spec_one_slash_join apiBaseUrl path
       \<and> url (ApiService_post (new_ApiService apiBaseUrl) path b hs) = spec_one_slash_join apiBaseUrl path
       \<and> url (ApiService_put (new_ApiService apiBaseUrl) path b) = spec_one_slash_join apiBaseUrl path
       \<and> url (ApiService_delete (new_ApiService apiBaseUrl) path) = spec_one_slash_join apiBaseUrl path"
  using replace_trailing_slash_strip [OF assms(1)] normalized_path_strip [OF assms(2)]
  by (simp add: ApiService_get_def ApiService_post_def ApiService_put_def ApiService_delete_def
      new_ApiService_def spec_one_slash_join_def)

theorem ApiService_url_one_slash_witness:
  "\<not> ends_with_two_slashes ''http://localhost:8000/api/''
   \<and> \<not> starts_with_two_slashes ''tests''
   \<and> url (ApiService_get (new_ApiService ''http://localhost:8000/api/'') ''tests'' None)
       = ''http://localhost:8000/api/tests''
   \<and> url (ApiService_post (new_ApiService ''http://localhost:8000/api/'') ''tests'' JNull None)
       = ''http://localhost:8000/api/tests''
   \<and> url (ApiService_put (new_ApiService ''http://localhost:8000/api/'') ''tests'' JNull)
       = ''http://localhost:8000/api/tests''
   \<and> url (ApiService_delete (new_ApiService ''http://localhost:8000/api/'') ''tests'')
       = ''http://localhost:8000/api/tests''"
proof -
  have h1: "\<not> ends_with_two_slashes ''http://localhost:8000/api/''"
    by (simp add: ends_with_two_slashes_def)
  have h2: "\<not> starts_with_two_slashes ''tests''"
    by (simp add: starts_with_two_slashes_def)
  have j: "spec_one_slash_join ''http://localhost:8000/api/'' ''tests''
           = ''http://localhost:8000/api/tests''"
    by (simp add: spec_one_slash_join_def strip_trailing_slashes_def strip_leading_slashes_def is_slash_def)
  show ?thesis
    using h1 h2 ApiService_url_one_slash [OF h1 h2, of None JNull None] j by simp
qed

text \<open>
  C1, as the specification states it, fails: a path with two leading slashes is joined
  to the base by two slashes.
\<close>

theorem ApiService_url_two_slashes_counterexample:
  "url (ApiService_get (new_ApiService ''http://localhost:8000/api'') ''//tests'' None)
     = ''http://localhost:8000/api//tests''
   \<and> url (ApiService_get (new_ApiService ''http://localhost:8000/api'') ''//tests'' None)
     \<noteq> spec_one_slash_join ''http://localhost:8000/api'' ''//tests''"
  by (simp add: ApiService_get_def new_ApiService_def replace_trailing_slash_def
      startsWith_slash_def spec_one_slash_join_def strip_trailing_slashes_def strip_leading_slashes_def is_slash_def)

section \<open>Subscribing and delivering\<close>

lemma subscribe_exchanges:
  "exchanges (subscribe obs next rt) = exchanges rt @ [(obs, Some next)]"
  by (simp add: subscribe_def AuthInterceptor_intercept_def backend_handle_def)

lemma subscribe_component: "component (subscribe obs next rt) = component rt"
  by (simp add: subscribe_def AuthInterceptor_intercept_def backend_handle_def)

lemma subscribe_unhandled: "unhandled (subscribe obs next rt) = unhandled rt"
  by (simp add: subscribe_def AuthInterceptor_intercept_def backend_handle_def)

lemma subscribe_sent: "sent (subscribe obs next rt) = sent rt @ [obs]"
  by (simp add: sent_def subscribe_exchanges)

lemma length_sent: "length (sent rt) = length (exchanges rt)"
  by (simp add: sent_def)

lemma map_fst_update_snd:
  "k < length xs \<Longrightarrow> map fst (xs[k := (fst (xs ! k), y)]) = map fst xs"
  by (simp add: list_eq_iff_nth_eq nth_list_update)

lemma deliver_sent: "sent (deliver k out rt) = sent rt"
  by (auto simp: deliver_def sent_def Let_def map_fst_update_snd
      split: option.splits http_outcome.splits)

lemma deliver_Failure_component: "component (deliver k (Failure st e) rt) = component rt"
  by (simp add: deliver_def Let_def split: option.splits)

lemma deliver_subscribe_Success:
  "component (deliver (length (exchanges rt)) (Success res) (subscribe obs next rt))
     = next res (component rt)"
  by (simp add: deliver_def subscribe_exchanges subscribe_component Let_def)

lemma deliver_subscribe_Failure_unhandled:
  "unhandled (deliver (length (exchanges rt)) (Failure st e) (subscribe obs next rt))
     = unhandled rt @ [(st, e)]"
  by (simp add: deliver_def subscribe_exchanges subscribe_unhandled Let_def)

lemma submit_valid:
  "form_valid (component rt) \<Longrightarrow>
   GenerateTestComponent_submit rt =
     subscribe (TestGeneratorService_generate (gen (component rt)) (form_screenId (component rt)) None)
       (\<lambda>res c. c\<lparr> result := Some res \<rparr>) rt"
  by (simp add: GenerateTestComponent_submit_def Let_def)

lemma submit_component: "component (GenerateTestComponent_submit rt) = component rt"
  by (simp add: GenerateTestComponent_submit_def Let_def subscribe_component)

lemma submit_deliver_Success:
  "form_valid (component rt) \<Longrightarrow>
   component (deliver (length (exchanges rt)) (Success res) (GenerateTestComponent_submit rt))
     = (component rt)\<lparr> result := Some res \<rparr>"
  by (simp add: submit_valid deliver_subscribe_Success)

section \<open>Properties of the interceptor and the domain service\<close>

text \<open>
  C7. \<^verbatim>\<open>AuthInterceptor.intercept\<close> hands the handler the request it was given,
  whatever the handler is; so the request that goes out on a subscription is the
  request descriptor of the observable, with method, URL, headers and body as they were.
\<close>

theorem intercept_pass_through:
  "AuthInterceptor_intercept req next = next req
   \<and> sent (subscribe req cb rt) = sent rt @ [req]"
  by (simp add: AuthInterceptor_intercept_def subscribe_sent)

theorem intercept_pass_through_witness:
  "AuthInterceptor_intercept
     (ApiService_get (new_ApiService ''http://localhost:8000/api'') ''/tests'' None) id
     = \<lparr> req_method = GET, url = ''http://localhost:8000/api/tests'', body = None,
         params = None, headers = None \<rparr>
   \<and> sent (subscribe
       (ApiService_get (new_ApiService ''http://localhost:8000/api'') ''/tests'' None)
       (\<lambda>res c. c\<lparr> result := Some res \<rparr>) screen_123_form)
     = [\<lparr> req_method = GET, url = ''http://localhost:8000/api/tests'', body = None,
          params = None, headers = None \<rparr>]"
proof -
  show ?thesis
    using intercept_pass_through
      [of "ApiService_get (new_ApiService ''http://localhost:8000/api'') ''/tests'' None" id
          "\<lambda>res c. c\<lparr> result := Some res \<rparr>" screen_123_form]
    by (simp add: ApiService_get_def new_ApiService_def replace_trailing_slash_def
        startsWith_slash_def sent_def new_runtime_def)
qed

text \<open>
  C2. One subscription to the observable that \<^verbatim>\<open>generate\<close> returns sends exactly one
  request: a POST to the base followed by \<^verbatim>\<open>/tests/generate\<close>, whose body is the
  object with the two properties \<open>screenId\<close> and \<open>options\<close>. When that call
  succeeds, the subscriber's callback receives the response body as it came. Whatever
  the outcome of whichever call, no further request is sent. The screen id is not
  inspected, so this holds for every screen id, the non-empty ones among them.
\<close>

theorem generate_issues_one_post:
  "(let rt' = subscribe (TestGeneratorService_generate svc sid opts) next rt
    in sent rt' = sent rt @
         [\<lparr> req_method = POST, url = base (api svc) @ ''/tests/generate'',
            body = Some (JObj [(''screenId'', JStr sid),
                               (''options'', JObj (case opts of None \<Rightarrow> [] | Some r \<Rightarrow> r))]),
            params = None, headers = None \<rparr>]
     \<and> component (deliver (length (sent rt)) (Success res) rt') = next res (component rt)
     \<and> sent (deliver k out rt') = sent rt')"
  by (simp add: Let_def subscribe_sent deliver_sent length_sent deliver_subscribe_Success
      TestGeneratorService_generate_def ApiService_post_def startsWith_slash_def)

theorem generate_issues_one_post_witness:
  "sent (subscribe (TestGeneratorService_generate dev_service ''screen_123''
           (Some [(''depth'', JStr ''medium''), (''includeEdgeCases'', JBool True)]))
         (\<lambda>res c. c\<lparr> result := Some res \<rparr>) screen_123_form)
     = [\<lparr> req_method = POST, url = ''http://localhost:8000/api/tests/generate'',
          body = Some (JObj [(''screenId'', JStr ''screen_123''),
             (''options'', JObj [(''depth'', JStr ''medium''), (''includeEdgeCases'', JBool True)])]),
          params = None, headers = None \<rparr>]
   \<and> result (component (deliver 0 (Success queued_snapshot)
         (subscribe (TestGeneratorService_generate dev_service ''screen_123''
             (Some [(''depth'', JStr ''medium''), (''includeEdgeCases'', JBool True)]))
           (\<lambda>res c. c\<lparr> result := Some res \<rparr>) screen_123_form)))
     = Some queued_snapshot"
proof -
  have n: "sent screen_123_form = []"
    by (simp add: new_runtime_def sent_def)
  have b: "base (new_ApiService ''http://localhost:8000/api'') = ''http://localhost:8000/api''"
    by (simp add: new_ApiService_def replace_trailing_slash_def)
  show ?thesis
    using generate_issues_one_post [of dev_service "''screen_123''"
        "Some [(''depth'', JStr ''medium''), (''includeEdgeCases'', JBool True)]"
        "\<lambda>res c. c\<lparr> result := Some res \<rparr>" screen_123_form queued_snapshot 0 "Success queued_snapshot"]
    by (simp add: Let_def n b)
qed

text \<open>
  C8, as the code has it. When \<^verbatim>\<open>options\<close> is omitted, the body's \<open>options\<close>
  property is the empty object.
\<close>

theorem generate_default_options_empty:
  "body (TestGeneratorService_generate svc sid None)
     = Some (JObj [(''screenId'', JStr sid), (''options'', JObj [])])"
  by (simp add: TestGeneratorService_generate_def ApiService_post_def)

text \<open>
  C8, as the specification states it, fails: the options sent by default have neither
  a \<open>depth\<close> nor an \<open>includeEdgeCases\<close> property.
\<close>

theorem generate_default_options_counterexample:
  "body (TestGeneratorService_generate \<lparr> api = new_ApiService ''http://localhost:8000/api'' \<rparr>
           ''screen_123'' None)
     = Some (JObj [(''screenId'', JStr ''screen_123''), (''options'', JObj [])])
   \<and> \<not> spec_is_GenerationOptions (JObj [])"
  by (simp add: TestGeneratorService_generate_def ApiService_post_def spec_is_GenerationOptions_def)

section \<open>Properties of the view coordinators\<close>

text \<open>
  C9. When the screen id of the form is empty, \<^verbatim>\<open>submit\<close> sends nothing and leaves
  the held result as it was; indeed nothing changes at all.
\<close>

theorem submit_invalid_no_effect:
  assumes "form_screenId (component rt) = []"
  shows "sent (GenerateTestComponent_submit rt) = sent rt
       \<and> result (component (GenerateTestComponent_submit rt)) = result (component rt)
       \<and> GenerateTestComponent_submit rt = rt"
  using assms by (simp add: GenerateTestComponent_submit_def form_valid_def)

theorem submit_invalid_no_effect_witness:
  "form_screenId (component (new_runtime ((new_GenerateTestComponent dev_service)
       \<lparr> result := Some queued_snapshot \<rparr>))) = []
   \<and> sent (GenerateTestComponent_submit (new_runtime ((new_GenerateTestComponent dev_service)
       \<lparr> result := Some queued_snapshot \<rparr>))) = []
   \<and> result (component (GenerateTestComponent_submit (new_runtime
       ((new_GenerateTestComponent dev_service)\<lparr> result := Some queued_snapshot \<rparr>))))
       = Some queued_snapshot"
proof -
  have h: "form_screenId (component (new_runtime ((new_GenerateTestComponent dev_service)
       \<lparr> result := Some queued_snapshot \<rparr>))) = []"
    by (simp add: new_runtime_def new_GenerateTestComponent_def)
  show ?thesis
    using h submit_invalid_no_effect [OF h]
    by (simp add: new_runtime_def new_GenerateTestComponent_def sent_def)
qed

text \<open>
  C10. A new \<^verbatim>\<open>TestListComponent\<close> holds the empty array, and still does after
  \<^verbatim>\<open>ngOnInit\<close> has issued the call to \<^verbatim>\<open>/tests\<close> and after any call has
  failed: until a response arrives the field is an array, and the template shows
  zero entries without an error.
\<close>

theorem test_list_starts_empty:
  "(let rt0 = new_runtime (new_TestListComponent a); rt1 = TestListComponent_ngOnInit rt0
    in tests (component rt0) = JArr [] \<and> TestListComponent_view (component rt0) = Inr []
     \<and> tests (component rt1) = JArr [] \<and> TestListComponent_view (component rt1) = Inr []
     \<and> tests (component (deliver k (Failure st e) rt1)) = JArr [])"
  by (simp add: Let_def new_runtime_def new_TestListComponent_def TestListComponent_ngOnInit_def
      subscribe_component TestListComponent_view_def deliver_Failure_component)

theorem test_list_starts_empty_witness:
  "TestListComponent_view (component (TestListComponent_ngOnInit
      (new_runtime (new_TestListComponent (new_ApiService ''http://localhost:8000/api'')))))
     = Inr []
   \<and> sent (TestListComponent_ngOnInit
      (new_runtime (new_TestListComponent (new_ApiService ''http://localhost:8000/api''))))
     = [\<lparr> req_method = GET, url = ''http://localhost:8000/api/tests'', body = None,
          params = None, headers = None \<rparr>]"
proof -
  have "sent (TestListComponent_ngOnInit
      (new_runtime (new_TestListComponent (new_ApiService ''http://localhost:8000/api''))))
     = [\<lparr> req_method = GET, url = ''http://localhost:8000/api/tests'', body = None,
          params = None, headers = None \<rparr>]"
    by (simp add: TestListComponent_ngOnInit_def subscribe_exchanges new_runtime_def sent_def
        new_TestListComponent_def ApiService_get_def new_ApiService_def
        replace_trailing_slash_def startsWith_slash_def)
  then show ?thesis
    using test_list_starts_empty [of "new_ApiService ''http://localhost:8000/api''" 0 0 JNull]
    by (simp add: Let_def)
qed

text \<open>
  C3, as the code has it. Two submissions are made from a valid form, and the call
  issued second succeeds before the call issued first. Each response is applied when
  it arrives: the held result is the second call's response after the first arrival
  and the first call's response after the second arrival. Nothing is discarded, and
  the final state is that of the call which completed last.
\<close>

theorem overlapping_generate_last_completion_wins:
  assumes "form_valid (component rt)"
  shows "(let n = length (exchanges rt);
              rt2 = GenerateTestComponent_submit (GenerateTestComponent_submit rt);
              fin = deliver n (Success r1) (deliver (Suc n) (Success r2) rt2)
          in length (sent rt2) = Suc (Suc n)
           \<and> result (component (deliver (Suc n) (Success r2) rt2)) = Some r2
           \<and> result (component fin) = Some r1)"
proof -
  let ?cb = "\<lambda>res c. c\<lparr> result := Some res \<rparr> :: generate_test_component"
  let ?obs = "TestGeneratorService_generate (gen (component rt)) (form_screenId (component rt)) None"
  let ?rt1 = "GenerateTestComponent_submit rt"
  have v1: "form_valid (component ?rt1)" using assms by (simp add: submit_component)
  have e1: "exchanges ?rt1 = exchanges rt @ [(?obs, Some ?cb)]"
    using assms by (simp add: submit_valid subscribe_exchanges)
  have e2: "exchanges (GenerateTestComponent_submit ?rt1)
              = exchanges rt @ [(?obs, Some ?cb), (?obs, Some ?cb)]"
    using v1 e1 by (simp add: submit_valid [of ?rt1] subscribe_exchanges submit_component)
  show ?thesis
    using e2 by (simp add: Let_def sent_def deliver_def nth_append list_update_append submit_component)
qed

theorem overlapping_generate_last_completion_wins_witness:
  "form_valid (component screen_123_form)
   \<and> result (component
        (deliver 0 (Success (JObj [(''testId'', JStr ''tst_1'')]))
          (deliver 1 (Success (JObj [(''testId'', JStr ''tst_2'')]))
            (GenerateTestComponent_submit (GenerateTestComponent_submit screen_123_form)))))
       = Some (JObj [(''testId'', JStr ''tst_1'')])"
proof -
  have v: "form_valid (component screen_123_form)"
    by (simp add: form_valid_def new_runtime_def new_GenerateTestComponent_def)
  have n: "length (exchanges screen_123_form) = 0"
    by (simp add: new_runtime_def)
  show ?thesis
    using v overlapping_generate_last_completion_wins [OF v,
        of "JObj [(''testId'', JStr ''tst_1'')]" "JObj [(''testId'', JStr ''tst_2'')]"]
    by (simp add: Let_def n)
qed

text \<open>
  C3, as the specification states it, fails: with two overlapping submissions whose
  second call answers first, the component ends with the first call's response.
\<close>

theorem overlapping_generate_stale_counterexample:
  "result (component
        (deliver 0 (Success (JObj [(''testId'', JStr ''tst_1'')]))
          (deliver 1 (Success (JObj [(''testId'', JStr ''tst_2'')]))
            (GenerateTestComponent_submit (GenerateTestComponent_submit screen_123_form)))))
     = Some (JObj [(''testId'', JStr ''tst_1'')])
   \<and> result (component
        (deliver 0 (Success (JObj [(''testId'', JStr ''tst_1'')]))
          (deliver 1 (Success (JObj [(''testId'', JStr ''tst_2'')]))
            (GenerateTestComponent_submit (GenerateTestComponent_submit screen_123_form)))))
     \<noteq> Some (JObj [(''testId'', JStr ''tst_2'')])"
  by (simp add: GenerateTestComponent_submit_def form_valid_def new_runtime_def
      new_GenerateTestComponent_def subscribe_def AuthInterceptor_intercept_def
      backend_handle_def deliver_def Let_def)

text \<open>
  C4, as the code has it. The body of every successful generate response is held as it
  came. The view shows that very body when it is truthy, as every object is, and shows
  nothing when it is not (\<^verbatim>\<open>null\<close>, \<^verbatim>\<open>0\<close>, \<^verbatim>\<open>''\<close>, \<^verbatim>\<open>false\<close>). The
  \<open>tests\<close> property of what is shown is the \<open>tests\<close> property of the response:
  absent when the response has none, and never replaced by an empty sequence.
\<close>

theorem generate_response_held_unchanged:
  assumes "form_valid (component rt)"
  shows "(let fin = deliver (length (exchanges rt)) (Success res) (GenerateTestComponent_submit rt)
          in result (component fin) = Some res
           \<and> GenerateTestComponent_view (component fin) = (if truthy res then Some res else None)
           \<and> shown_prop (component fin) ''tests''
               = (if truthy res then get_prop res ''tests'' else None))"
  using assms
  by (simp add: Let_def submit_deliver_Success shown_prop_def GenerateTestComponent_view_def)

theorem generate_response_held_unchanged_witness:
  "form_valid (component screen_123_form)
   \<and> result (component (deliver 0
         (Success (JObj [(''testId'', JStr ''tst_789''), (''status'', JStr ''queued'')]))
         (GenerateTestComponent_submit screen_123_form)))
       = Some (JObj [(''testId'', JStr ''tst_789''), (''status'', JStr ''queued'')])
   \<and> GenerateTestComponent_view (component (deliver 0
         (Success (JObj [(''testId'', JStr ''tst_789''), (''status'', JStr ''queued'')]))
         (GenerateTestComponent_submit screen_123_form)))
       = Some (JObj [(''testId'', JStr ''tst_789''), (''status'', JStr ''queued'')])
   \<and> shown_prop (component (deliver 0
         (Success (JObj [(''testId'', JStr ''tst_789''), (''status'', JStr ''queued'')]))
         (GenerateTestComponent_submit screen_123_form))) ''tests'' = None
   \<and> shown_prop (component (deliver 0 (Success queued_snapshot)
         (GenerateTestComponent_submit screen_123_form))) ''tests'' = Some (JArr [])
   \<and> result (component (deliver 0 (Success JNull)
         (GenerateTestComponent_submit screen_123_form))) = Some JNull
   \<and> GenerateTestComponent_view (component (deliver 0 (Success JNull)
         (GenerateTestComponent_submit screen_123_form))) = None"
proof -
  have v: "form_valid (component screen_123_form)"
    by (simp add: form_valid_def new_runtime_def new_GenerateTestComponent_def)
  have n: "length (exchanges screen_123_form) = 0"
    by (simp add: new_runtime_def)
  show ?thesis
    using v
      generate_response_held_unchanged [OF v,
        of "JObj [(''testId'', JStr ''tst_789''), (''status'', JStr ''queued'')]"]
      generate_response_held_unchanged [OF v, of queued_snapshot]
      generate_response_held_unchanged [OF v, of JNull]
    by (simp add: Let_def n)
qed

text \<open>
  C4, as the specification states it, fails: for a response without \<open>tests\<close>, the
  shown value has no \<open>tests\<close> property, not the empty sequence.
\<close>

theorem generate_missing_tests_counterexample:
  "GenerateTestComponent_view (component (deliver 0
       (Success (JObj [(''testId'', JStr ''tst_789''), (''status'', JStr ''queued'')]))
       (GenerateTestComponent_submit screen_123_form)))
     = Some (JObj [(''testId'', JStr ''tst_789''), (''status'', JStr ''queued'')])
   \<and> shown_prop (component (deliver 0
       (Success (JObj [(''testId'', JStr ''tst_789''), (''status'', JStr ''queued'')]))
       (GenerateTestComponent_submit screen_123_form))) ''tests'' \<noteq> Some (JArr [])"
  by (simp add: GenerateTestComponent_submit_def form_valid_def new_runtime_def
      new_GenerateTestComponent_def subscribe_def AuthInterceptor_intercept_def
      backend_handle_def deliver_def Let_def shown_prop_def GenerateTestComponent_view_def)




text \<open>
  C6, as the code has it. A failed call changes nothing in the component that issued
  it, for \<^verbatim>\<open>GenerateTestComponent\<close> and for \<^verbatim>\<open>TestListComponent\<close>: the held
  result, respectively the held list, stays what it was, and the error is not stored
  in the component. The failure of the call just issued ends up among the unhandled
  errors.
\<close>

theorem failed_call_leaves_component_unchanged:
  "component (deliver k (Failure st e) (GenerateTestComponent_submit rt)) = component rt
   \<and> component (deliver k (Failure st e) (TestListComponent_ngOnInit rl)) = component rl
   \<and> (form_valid (component rt) \<longrightarrow>
        unhandled (deliver (length (exchanges rt)) (Failure st e) (GenerateTestComponent_submit rt))
          = unhandled rt @ [(st, e)])
   \<and> unhandled (deliver (length (exchanges rl)) (Failure st e) (TestListComponent_ngOnInit rl))
          = unhandled rl @ [(st, e)]"
  by (simp add: deliver_Failure_component submit_component submit_valid
      deliver_subscribe_Failure_unhandled TestListComponent_ngOnInit_def subscribe_component)

theorem failed_call_leaves_component_unchanged_witness:
  "form_valid (component screen_123_loaded)
   \<and> component (deliver 0 (Failure 500 rate_limit_error) (GenerateTestComponent_submit screen_123_loaded))
       = component screen_123_loaded
   \<and> unhandled (deliver 0 (Failure 500 rate_limit_error) (GenerateTestComponent_submit screen_123_loaded))
       = [(500, rate_limit_error)]"
proof -
  have v: "form_valid (component screen_123_loaded)"
    by (simp add: form_valid_def new_runtime_def new_GenerateTestComponent_def)
  have n: "length (exchanges screen_123_loaded) = 0" "unhandled screen_123_loaded = []"
    by (simp_all add: new_runtime_def)
  show ?thesis
    using v failed_call_leaves_component_unchanged [of 0 500 rate_limit_error screen_123_loaded]
    by (simp add: n)
qed

text \<open>
  C6, as the specification states it, fails: after a call that failed with status 500
  and a \<open>code\<close>/\<open>message\<close> body, the component still holds and shows the earlier
  snapshot, and does not show the error.
\<close>

theorem failed_call_stale_snapshot_counterexample:
  "result (component (deliver 0 (Failure 500 rate_limit_error)
       (GenerateTestComponent_submit screen_123_loaded))) = Some queued_snapshot
   \<and> GenerateTestComponent_view (component (deliver 0 (Failure 500 rate_limit_error)
       (GenerateTestComponent_submit screen_123_loaded))) = Some queued_snapshot
   \<and> GenerateTestComponent_view (component (deliver 0 (Failure 500 rate_limit_error)
       (GenerateTestComponent_submit screen_123_loaded))) \<noteq> Some rate_limit_error"
  by (simp add: GenerateTestComponent_submit_def form_valid_def new_runtime_def
      new_GenerateTestComponent_def subscribe_def AuthInterceptor_intercept_def
      backend_handle_def deliver_def Let_def GenerateTestComponent_view_def)

end
